theory Spec2Isabelle
  imports Main "HOL-Library.Sublist"
begin

section \<open>Values shared by the views\<close>

text \<open>
  The views are React components. A component is modelled by the state its hooks hold
  (a record), by its event handlers (functions from state to state) and by its render
  function (from props and state to the elements it returns). Everything a handler does
  outside the component (a call of the service client, a notification, a change of the
  query cache, a navigation) is written into an explicit \<open>client\<close> record.
\<close>

subsection \<open>JavaScript truthiness\<close>

text \<open>A string is truthy unless it is empty; \<open>undefined\<close> and \<open>null\<close> are \<open>None\<close>.\<close>

definition truthy_string :: "string \<Rightarrow> bool" where
  "truthy_string s = (s \<noteq> [])"

text \<open>\<open>s || undefined\<close>\<close>

definition or_undefined :: "string \<Rightarrow> string option" where
  "or_undefined s = (if truthy_string s then Some s else None)"

text \<open>\<open>v || d\<close> for a nullable string \<open>v\<close> and a string literal \<open>d\<close>\<close>

definition or_else :: "string option \<Rightarrow> string \<Rightarrow> string" where
  "or_else v d = (case v of None \<Rightarrow> d | Some s \<Rightarrow> if truthy_string s then s else d)"

text \<open>An optional boolean flag is truthy only when it is present and true.\<close>

definition truthy_flag :: "bool option \<Rightarrow> bool" where
  "truthy_flag f = (case f of None \<Rightarrow> False | Some b \<Rightarrow> b)"

subsection \<open>Books and users\<close>

text \<open>
  \<open>BookPublic\<close> and \<open>BookSearchResult\<close> are types of the generated client. A search
  result is passed where a \<open>BookPublic\<close> is expected (the actions column hands the row
  to \<open>DeleteBook\<close>), which record extension gives.
\<close>

datatype availability = IN | OUT

record BookPublic =
  isbn :: string
  title :: string

record BookSearchResult = BookPublic +
  authors :: "string option"
  available :: availability

record BookFormValues = BookPublic +
  authorName :: string

text \<open>The user of the auth context; \<open>is_superuser\<close> is an optional field.\<close>

record user =
  email :: string
  full_name :: "string option"
  is_superuser :: "bool option"

text \<open>\<open>user?.is_superuser\<close>: the user itself may be missing.\<close>

definition user_is_superuser :: "user option \<Rightarrow> bool option" where
  "user_is_superuser u = (case u of None \<Rightarrow> None | Some usr \<Rightarrow> is_superuser usr)"

subsection \<open>The service client, notifications and the query cache\<close>

text \<open>A call of the service client, with the arguments it is given.\<close>

datatype request =
    searchBooks "string option" int int
  | createBook string string string
  | deleteBook string
  | readUserMe

record api_error =
  message :: "string option"

datatype variant = destructive

record toast_props =
  toast_title :: string
  description :: string
  toast_variant :: "variant option"

type_synonym query_key = "string list"

record cache_entry =
  rows :: "BookSearchResult list"
  isInvalidated :: bool

type_synonym query_cache = "(query_key \<times> cache_entry) list"

text \<open>
  Modelled from the spec: \<open>invalidateQueries\<close> belongs to the query-cache library, which
  is not part of the sources. The spec describes it as marking every cache entry whose
  key starts with the given key as stale; all other entries are left as they are.
\<close>

definition invalidateQueries :: "query_key \<Rightarrow> query_cache \<Rightarrow> query_cache" where
  "invalidateQueries p qc =
     map (\<lambda>(k, e). if prefix p k then (k, e\<lparr>isInvalidated := True\<rparr>) else (k, e)) qc"

record client =
  requests :: "request list"
  toasts :: "toast_props list"
  cache :: query_cache
  location :: string

definition send :: "request \<Rightarrow> client \<Rightarrow> client" where
  "send r c = c\<lparr>requests := requests c @ [r]\<rparr>"

definition toast :: "toast_props \<Rightarrow> client \<Rightarrow> client" where
  "toast t c = c\<lparr>toasts := toasts c @ [t]\<rparr>"

text \<open>The pending flag of a \<open>useMutation\<close> instance.\<close>

record mutation =
  isPending :: bool

text \<open>What a component returns. \<open>return null\<close> is the empty list.\<close>

datatype element =
    Link string string
  | Input string
  | Button string
  | BooksTable string
  | IconButton string
  | AlertDialog bool string "element list"
  | AlertDialogCancel string
  | AlertDialogAction bool string

section \<open>The Books list view\<close>

subsection \<open>Columns of the search table\<close>

text \<open>\<open>row.original.authors || "No authors"\<close>\<close>

definition authors_cell :: "BookSearchResult \<Rightarrow> string" where
  "authors_cell row = or_else (authors row) ''No authors''"

definition available_cell :: "BookSearchResult \<Rightarrow> string \<times> string" where
  "available_cell row =
     (if available row = IN then ''text-green-600 font-medium'' else ''text-red-600 font-medium'',
      if available row = IN then ''Available'' else ''Checked Out'')"

subsection \<open>The query\<close>

record query_options =
  queryFn :: request
  queryKey :: query_key

definition getBooksQueryOptions :: "string \<Rightarrow> query_options" where
  "getBooksQueryOptions query =
     \<lparr>queryFn = searchBooks (or_undefined query) 0 100,
      queryKey = [''books'', query]\<rparr>"

text \<open>
  \<open>BooksTableContent\<close> hands the options to \<open>useSuspenseQuery\<close> and shows the rows
  it gets. The hook is the cache library's, so it is a parameter here.
\<close>

definition BooksTableContent ::
  "(query_options \<Rightarrow> BookSearchResult list) \<Rightarrow> string \<Rightarrow> BookSearchResult list" where
  "BooksTableContent useSuspenseQuery query = useSuspenseQuery (getBooksQueryOptions query)"

subsection \<open>The component\<close>

record Books_state =
  searchQuery :: string
  activeQuery :: string

definition Books_init :: Books_state where
  "Books_init = \<lparr>searchQuery = [], activeQuery = []\<rparr>"

text \<open>The input's \<open>onChange\<close>: \<open>setSearchQuery(e.target.value)\<close>\<close>

definition onChange :: "string \<Rightarrow> Books_state \<Rightarrow> Books_state" where
  "onChange v st = st\<lparr>searchQuery := v\<rparr>"

definition handleSearch :: "Books_state \<Rightarrow> Books_state" where
  "handleSearch st = st\<lparr>activeQuery := searchQuery st\<rparr>"

definition handleClear :: "Books_state \<Rightarrow> Books_state" where
  "handleClear st = st\<lparr>searchQuery := [], activeQuery := []\<rparr>"

definition Books :: "user option \<Rightarrow> Books_state \<Rightarrow> element list" where
  "Books u st =
     (if truthy_flag (user_is_superuser u) then [Link ''/books/add'' ''Add Book''] else [])
     @ [Input (searchQuery st), Button ''Search'']
     @ (if truthy_string (activeQuery st) then [Button ''Clear''] else [])
     @ [BooksTable (activeQuery st)]"

text \<open>The query the rendered view fetches: that of every table it contains.\<close>

fun table_queries :: "element list \<Rightarrow> query_options list" where
  "table_queries [] = []"
| "table_queries (BooksTable q # es) = getBooksQueryOptions q # table_queries es"
| "table_queries (e # es) = table_queries es"

section \<open>The Delete Book control\<close>

record DeleteBook_state = mutation +
  "open" :: bool

definition DeleteBook_init :: DeleteBook_state where
  "DeleteBook_init = \<lparr>isPending = False, open = False\<rparr>"

text \<open>The template literal of the success notification; \<open>CHR 0x22\<close> is the double quote.\<close>

definition deleted_description :: "string \<Rightarrow> string" where
  "deleted_description t = CHR 0x22 # t @ CHR 0x22 # '' has been deleted successfully.''"

definition DeleteBook_onSuccess ::
  "'a BookPublic_scheme \<Rightarrow> DeleteBook_state \<times> client \<Rightarrow> DeleteBook_state \<times> client" where
  "DeleteBook_onSuccess book s =
     (case s of (ds, c) \<Rightarrow>
        let c1 = toast \<lparr>toast_title = ''Book deleted'',
                        description = deleted_description (title book),
                        toast_variant = None\<rparr> c;
            c2 = c1\<lparr>cache := invalidateQueries [''books''] (cache c1)\<rparr>
        in (ds\<lparr>open := False\<rparr>, c2))"

definition DeleteBook_onError ::
  "api_error \<Rightarrow> DeleteBook_state \<times> client \<Rightarrow> DeleteBook_state \<times> client" where
  "DeleteBook_onError error s =
     (case s of (ds, c) \<Rightarrow>
        (ds, toast \<lparr>toast_title = ''Error deleting book'',
                    description = or_else (message error)
                                    ''An error occurred while deleting the book.'',
                    toast_variant = Some destructive\<rparr> c))"

text \<open>
  \<open>mutation.mutate()\<close>: the mutation becomes pending and \<open>mutationFn\<close> runs, which calls
  \<open>deleteBook\<close> with the isbn of the row.
\<close>

definition DeleteBook_mutate ::
  "'a BookPublic_scheme \<Rightarrow> DeleteBook_state \<times> client \<Rightarrow> DeleteBook_state \<times> client" where
  "DeleteBook_mutate book s =
     (case s of (ds, c) \<Rightarrow> (ds\<lparr>isPending := True\<rparr>, send (deleteBook (isbn book)) c))"

text \<open>
  The request settles: \<open>None\<close> when the promise resolves, \<open>Some error\<close> when it rejects.
  The mutation is no longer pending and the matching callback runs.
\<close>

definition DeleteBook_settle ::
  "'a BookPublic_scheme \<Rightarrow> api_error option \<Rightarrow> DeleteBook_state \<times> client
     \<Rightarrow> DeleteBook_state \<times> client" where
  "DeleteBook_settle book r s =
     (case s of (ds, c) \<Rightarrow>
        (case r of
           None \<Rightarrow> DeleteBook_onSuccess book (ds\<lparr>isPending := False\<rparr>, c)
         | Some error \<Rightarrow> DeleteBook_onError error (ds\<lparr>isPending := False\<rparr>, c)))"

definition confirm_description :: "'a BookPublic_scheme \<Rightarrow> string" where
  "confirm_description book =
     ''Are you sure you want to delete '' @ CHR 0x22 # title book @ CHR 0x22 #
     '' (ISBN: '' @ isbn book @ '')? This action cannot be undone.''"

definition DeleteBook :: "user option \<Rightarrow> 'a BookPublic_scheme \<Rightarrow> DeleteBook_state \<Rightarrow> element list" where
  "DeleteBook u book ds =
     (if \<not> truthy_flag (user_is_superuser u) then []
      else [IconButton ''Trash2'',
            AlertDialog (open ds) (confirm_description book)
              [AlertDialogCancel ''Cancel'',
               AlertDialogAction (isPending ds)
                 (if isPending ds then ''Deleting...'' else ''Delete'')]])"

subsection \<open>Events of the control\<close>

text \<open>
  The user can only act on what is rendered: the icon when it is there, the buttons of the
  dialog while the dialog is open, the action button unless it is disabled. The dialog
  primitives are the UI library's; the control gives them \<open>setOpen\<close> as \<open>onOpenChange\<close>
  and \<open>mutation.mutate\<close> as the action's \<open>onClick\<close>. In that library the cancel button,
  a dismissal and the action button all close the dialog, that is, call
  \<open>onOpenChange(false)\<close>; the action button first runs the \<open>onClick\<close> it is given and
  closes afterwards unless that handler prevents the default, which the handler of the
  control does not do.
\<close>

datatype DeleteBook_event = TrashClick | CancelClick | Dismiss | ActionClick | Settled "api_error option"

fun dialog_content :: "element list \<Rightarrow> element list" where
  "dialog_content [] = []"
| "dialog_content (AlertDialog opn d kids # es) = (if opn then kids else []) @ dialog_content es"
| "dialog_content (e # es) = dialog_content es"

fun is_cancel :: "element \<Rightarrow> bool" where
  "is_cancel (AlertDialogCancel l) = True"
| "is_cancel e = False"

fun is_enabled_action :: "element \<Rightarrow> bool" where
  "is_enabled_action (AlertDialogAction disabled l) = (\<not> disabled)"
| "is_enabled_action e = False"

definition DeleteBook_step ::
  "user option \<Rightarrow> 'a BookPublic_scheme \<Rightarrow> DeleteBook_event \<Rightarrow> DeleteBook_state \<times> client
     \<Rightarrow> DeleteBook_state \<times> client" where
  "DeleteBook_step u book ev s =
     (case s of (ds, c) \<Rightarrow>
        let view = DeleteBook u book ds in
        (case ev of
           TrashClick \<Rightarrow>
             if IconButton ''Trash2'' \<in> set view then (ds\<lparr>open := True\<rparr>, c) else s
         | CancelClick \<Rightarrow>
             if list_ex is_cancel (dialog_content view) then (ds\<lparr>open := False\<rparr>, c) else s
         | Dismiss \<Rightarrow>
             if dialog_content view \<noteq> [] then (ds\<lparr>open := False\<rparr>, c) else s
         | ActionClick \<Rightarrow>
             if list_ex is_enabled_action (dialog_content view)
             then (case DeleteBook_mutate book s of (ds', c') \<Rightarrow> (ds'\<lparr>open := False\<rparr>, c'))
             else s
         | Settled r \<Rightarrow>
             if isPending ds then DeleteBook_settle book r s else s))"

fun DeleteBook_run ::
  "user option \<Rightarrow> 'a BookPublic_scheme \<Rightarrow> DeleteBook_event list \<Rightarrow> DeleteBook_state \<times> client
     \<Rightarrow> DeleteBook_state \<times> client" where
  "DeleteBook_run u book [] s = s"
| "DeleteBook_run u book (ev # evs) s = DeleteBook_run u book evs (DeleteBook_step u book ev s)"


section \<open>The Add Book view\<close>

subsection \<open>The route guard\<close>

datatype load_outcome = Continue | Redirect string | Rejected api_error

text \<open>
  \<open>beforeLoad\<close> awaits \<open>readUserMe\<close>; the answer of the server is the first argument
  (\<open>Inl\<close> when the call fails, which \<open>await\<close> rethrows).
\<close>

definition beforeLoad :: "api_error + user \<Rightarrow> client \<Rightarrow> load_outcome \<times> client" where
  "beforeLoad response c =
     (let c' = send readUserMe c in
      case response of
        Inl error \<Rightarrow> (Rejected error, c')
      | Inr usr \<Rightarrow>
          if \<not> truthy_flag (is_superuser usr) then (Redirect ''/books'', c')
          else (Continue, c'))"

record AddBook_state = mutation +
  formValues :: BookFormValues
  formErrors :: "(string \<times> string) list"

definition defaultValues :: BookFormValues where
  "defaultValues = \<lparr>isbn = [], title = [], authorName = []\<rparr>"

definition AddBook_init :: AddBook_state where
  "AddBook_init = \<lparr>isPending = False, formValues = defaultValues, formErrors = []\<rparr>"

text \<open>
  Modelled from the spec: the router is not part of the sources. The route fetches the
  current user before rendering; only when the guard lets the navigation through is the
  component mounted and its form state created, and a redirect moves to its target.
\<close>

definition load_AddBook :: "api_error + user \<Rightarrow> client \<Rightarrow> AddBook_state option \<times> client" where
  "load_AddBook response c =
     (case beforeLoad response c of
        (Continue, c') \<Rightarrow> (Some AddBook_init, c'\<lparr>location := ''/books/add''\<rparr>)
      | (Redirect to, c') \<Rightarrow> (None, c'\<lparr>location := to\<rparr>)
      | (Rejected error, c') \<Rightarrow> (None, c'))"

subsection \<open>Validation\<close>

text \<open>\<open>z.string().min(n, msg)\<close> at the field \<open>path\<close>: an issue when the value is shorter.\<close>

definition string_min :: "nat \<Rightarrow> string \<Rightarrow> string \<Rightarrow> string \<Rightarrow> (string \<times> string) list" where
  "string_min n msg path v = (if n \<le> length v then [] else [(path, msg)])"

definition bookSchema :: "BookFormValues \<Rightarrow> (string \<times> string) list" where
  "bookSchema d =
     string_min 1 ''ISBN is required'' ''isbn'' (isbn d)
     @ string_min 1 ''Title is required'' ''title'' (title d)
     @ string_min 1 ''Author name is required'' ''authorName'' (authorName d)"

subsection \<open>Submission\<close>

definition AddBook_mutate ::
  "BookFormValues \<Rightarrow> AddBook_state \<times> client \<Rightarrow> AddBook_state \<times> client" where
  "AddBook_mutate d s =
     (case s of (fs, c) \<Rightarrow>
        (fs\<lparr>isPending := True\<rparr>, send (createBook (isbn d) (title d) (authorName d)) c))"

definition onSubmit ::
  "BookFormValues \<Rightarrow> AddBook_state \<times> client \<Rightarrow> AddBook_state \<times> client" where
  "onSubmit d s = AddBook_mutate d s"

text \<open>
  Modelled from the spec: \<open>form.handleSubmit\<close> with the schema as its resolver belongs to
  the form library, which is not part of the sources. Validation runs before the
  callback; its errors are stored by field and block the submission.
\<close>

definition handleSubmit ::
  "(BookFormValues \<Rightarrow> AddBook_state \<times> client \<Rightarrow> AddBook_state \<times> client)
     \<Rightarrow> AddBook_state \<times> client \<Rightarrow> AddBook_state \<times> client" where
  "handleSubmit callback s =
     (case s of (fs, c) \<Rightarrow>
        let errs = bookSchema (formValues fs) in
        if errs = [] then callback (formValues fs) (fs\<lparr>formErrors := []\<rparr>, c)
        else (fs\<lparr>formErrors := errs\<rparr>, c))"

text \<open>\<open>FormMessage\<close> of a field shows the error stored for that field, if any.\<close>

definition FormMessage :: "string \<Rightarrow> AddBook_state \<Rightarrow> string option" where
  "FormMessage name fs = map_of (formErrors fs) name"

definition AddBook_onSuccess :: "AddBook_state \<times> client \<Rightarrow> AddBook_state \<times> client" where
  "AddBook_onSuccess s =
     (case s of (fs, c) \<Rightarrow>
        let c1 = toast \<lparr>toast_title = ''Book created'',
                        description = ''The book has been added successfully.'',
                        toast_variant = None\<rparr> c;
            c2 = c1\<lparr>cache := invalidateQueries [''books''] (cache c1)\<rparr>
        in (fs, c2\<lparr>location := ''/books''\<rparr>))"

definition AddBook_onError :: "api_error \<Rightarrow> AddBook_state \<times> client \<Rightarrow> AddBook_state \<times> client" where
  "AddBook_onError error s =
     (case s of (fs, c) \<Rightarrow>
        (fs, toast \<lparr>toast_title = ''Error creating book'',
                    description = or_else (message error)
                                    ''An error occurred while creating the book.'',
                    toast_variant = Some destructive\<rparr> c))"

section \<open>Properties of the Books list view\<close>

lemma table_queries_Books:
  "table_queries (Books u st) = [getBooksQueryOptions (activeQuery st)]"
  by (simp add: Books_def)

text \<open>
  C1: for every non-empty string typed into the search input, submitting the form makes
  exactly that string the active query (nothing is trimmed), and the table is filled from
  the \<open>searchBooks\<close> call with that string, skip 0 and limit 100, under the cache key
  \<open>["books", query]\<close>.
\<close>

theorem search_commits_literal_query:
  assumes "q \<noteq> []"
  shows "activeQuery (handleSearch (onChange q st)) = q
       \<and> table_queries (Books u (handleSearch (onChange q st)))
           = [\<lparr>queryFn = searchBooks (Some q) 0 100, queryKey = [''books'', q]\<rparr>]
       \<and> BooksTableContent useSuspenseQuery (activeQuery (handleSearch (onChange q st)))
           = useSuspenseQuery \<lparr>queryFn = searchBooks (Some q) 0 100, queryKey = [''books'', q]\<rparr>"
proof -
  have a: "activeQuery (handleSearch (onChange q st)) = q"
    by (simp add: handleSearch_def onChange_def)
  have o: "getBooksQueryOptions q
             = \<lparr>queryFn = searchBooks (Some q) 0 100, queryKey = [''books'', q]\<rparr>"
    using assms by (simp add: getBooksQueryOptions_def or_undefined_def truthy_string_def)
  show ?thesis
    by (simp add: a o table_queries_Books BooksTableContent_def)
qed

theorem search_commits_literal_query_witness:
  "'' dune '' \<noteq> []
   \<and> activeQuery (handleSearch (onChange '' dune '' Books_init)) = '' dune ''
   \<and> table_queries (Books None (handleSearch (onChange '' dune '' Books_init)))
       = [\<lparr>queryFn = searchBooks (Some '' dune '') 0 100, queryKey = [''books'', '' dune '']\<rparr>]
   \<and> BooksTableContent (\<lambda>opts. []) (activeQuery (handleSearch (onChange '' dune '' Books_init)))
       = []"
proof -
  have h: "'' dune '' \<noteq> []" by simp
  from search_commits_literal_query [OF h, of Books_init None "\<lambda>opts. []"] h
  show ?thesis by blast
qed

text \<open>
  C7: Clear resets the live input value and the active query to the empty string, so the
  next fetch is the unrestricted list: the empty-query search with skip 0 and limit 100.
\<close>

theorem clear_resets_both_queries:
  "searchQuery (handleClear st) = []
   \<and> activeQuery (handleClear st) = []
   \<and> table_queries (Books u (handleClear st))
       = [\<lparr>queryFn = searchBooks None 0 100, queryKey = [''books'', []]\<rparr>]"
  by (simp add: table_queries_Books handleClear_def getBooksQueryOptions_def
      or_undefined_def truthy_string_def)

text \<open>
  C9: when the active query is the empty string, \<open>searchBooks\<close> is called with the query
  parameter absent rather than empty, while the cache key still holds the empty string;
  skip 0 and limit 100 are passed for every query.
\<close>

theorem empty_query_is_sent_as_undefined:
  "getBooksQueryOptions [] = \<lparr>queryFn = searchBooks None 0 100, queryKey = [''books'', []]\<rparr>
   \<and> (\<forall>q. \<exists>a. queryFn (getBooksQueryOptions q) = searchBooks a 0 100)"
  by (simp add: getBooksQueryOptions_def or_undefined_def truthy_string_def)

text \<open>
  C10: a row whose authors field is null or the empty string shows the text
  \<open>No authors\<close> in the Authors column.
\<close>

theorem missing_authors_show_fallback:
  "authors row = None \<or> authors row = Some [] \<Longrightarrow> authors_cell row = ''No authors''"
  by (auto simp: authors_cell_def or_else_def truthy_string_def)

theorem missing_authors_show_fallback_witness:
  "authors_cell \<lparr>isbn = ''978-0'', title = ''Dune'', authors = None, available = IN\<rparr> = ''No authors''"
  using missing_authors_show_fallback
    [of "\<lparr>isbn = ''978-0'', title = ''Dune'', authors = None, available = IN\<rparr>"]
  by simp

text \<open>
  C2: when there is no user, or the user has no \<open>is_superuser\<close> flag, or the flag is
  false, the list view renders no Add Book link and the delete control renders nothing.
\<close>

theorem non_superuser_sees_no_add_or_delete:
  assumes "u = None \<or> (\<exists>usr. u = Some usr \<and> (is_superuser usr = None \<or> is_superuser usr = Some False))"
  shows "Link ''/books/add'' ''Add Book'' \<notin> set (Books u st) \<and> DeleteBook u book ds = []"
proof -
  from assms have "\<not> truthy_flag (user_is_superuser u)"
    by (auto simp: user_is_superuser_def truthy_flag_def)
  then show ?thesis
    by (simp add: Books_def DeleteBook_def)
qed

theorem non_superuser_sees_no_add_or_delete_witness:
  "Link ''/books/add'' ''Add Book''
     \<notin> set (Books (Some \<lparr>email = ''a@b.c'', full_name = None, is_superuser = Some False\<rparr>) Books_init)
   \<and> DeleteBook (Some \<lparr>email = ''a@b.c'', full_name = None, is_superuser = Some False\<rparr>)
       \<lparr>isbn = ''978-0'', title = ''Dune''\<rparr> DeleteBook_init = []"
  using non_superuser_sees_no_add_or_delete
    [of "Some \<lparr>email = ''a@b.c'', full_name = None, is_superuser = Some False\<rparr>"
        Books_init "\<lparr>isbn = ''978-0'', title = ''Dune''\<rparr>" DeleteBook_init]
  by simp

section \<open>Properties of the Add Book view\<close>

text \<open>
  C3: loading the Add Book route always calls \<open>readUserMe\<close> first; when the user it
  returns is not a superuser, the guard redirects to \<open>/books\<close> and no form state is
  created.
\<close>

theorem guard_redirects_non_superuser:
  assumes "is_superuser usr = None \<or> is_superuser usr = Some False"
  shows "beforeLoad (Inr usr) c = (Redirect ''/books'', send readUserMe c)
       \<and> load_AddBook (Inr usr) c = (None, (send readUserMe c)\<lparr>location := ''/books''\<rparr>)"
proof -
  from assms have "\<not> truthy_flag (is_superuser usr)"
    by (auto simp: truthy_flag_def)
  then show ?thesis
    by (simp add: beforeLoad_def load_AddBook_def)
qed

theorem guard_redirects_non_superuser_witness:
  "load_AddBook (Inr \<lparr>email = ''a@b.c'', full_name = None, is_superuser = Some False\<rparr>)
     \<lparr>requests = [], toasts = [], cache = [], location = ''/books''\<rparr>
   = (None, \<lparr>requests = [readUserMe], toasts = [], cache = [], location = ''/books''\<rparr>)"
  using guard_redirects_non_superuser
    [where usr = "\<lparr>email = ''a@b.c'', full_name = None, is_superuser = Some False\<rparr>"
       and c = "\<lparr>requests = [], toasts = [], cache = [], location = ''/books''\<rparr>"]
  by (simp add: send_def)

lemma bookSchema_Nil:
  "bookSchema d = [] \<longleftrightarrow> isbn d \<noteq> [] \<and> title d \<noteq> [] \<and> authorName d \<noteq> []"
  by (auto simp: bookSchema_def string_min_def Suc_le_eq)

lemma map_of_bookSchema:
  "map_of (bookSchema d) ''isbn'' = (if isbn d = [] then Some ''ISBN is required'' else None)"
  "map_of (bookSchema d) ''title'' = (if title d = [] then Some ''Title is required'' else None)"
  "map_of (bookSchema d) ''authorName'' =
     (if authorName d = [] then Some ''Author name is required'' else None)"
  by (simp_all add: bookSchema_def string_min_def Suc_le_eq)

lemma handleSubmit_onSubmit:
  "handleSubmit onSubmit (fs, c) =
     (if bookSchema (formValues fs) = []
      then (fs\<lparr>formErrors := [], isPending := True\<rparr>,
            send (createBook (isbn (formValues fs)) (title (formValues fs))
                    (authorName (formValues fs))) c)
      else (fs\<lparr>formErrors := bookSchema (formValues fs)\<rparr>, c))"
  by (simp add: handleSubmit_def onSubmit_def AddBook_mutate_def Let_def)

text \<open>
  C6: a submission with an empty isbn, title or author name is blocked: the client is left
  as it was (no \<open>createBook\<close> request), and each empty field, and no other, carries its
  own message. A request is sent exactly when all three fields are non-empty, and it
  carries the three values.
\<close>

theorem empty_field_blocks_submission:
  "(case handleSubmit onSubmit (fs, c) of (fs', c') \<Rightarrow>
      (isbn (formValues fs) = [] \<or> title (formValues fs) = [] \<or> authorName (formValues fs) = []
         \<longrightarrow> c' = c \<and> isPending fs' = isPending fs \<and> formValues fs' = formValues fs)
    \<and> (isbn (formValues fs) = [] \<longrightarrow> FormMessage ''isbn'' fs' = Some ''ISBN is required'')
    \<and> (title (formValues fs) = [] \<longrightarrow> FormMessage ''title'' fs' = Some ''Title is required'')
    \<and> (authorName (formValues fs) = [] \<longrightarrow>
          FormMessage ''authorName'' fs' = Some ''Author name is required'')
    \<and> (isbn (formValues fs) \<noteq> [] \<longrightarrow> FormMessage ''isbn'' fs' = None)
    \<and> (title (formValues fs) \<noteq> [] \<longrightarrow> FormMessage ''title'' fs' = None)
    \<and> (authorName (formValues fs) \<noteq> [] \<longrightarrow> FormMessage ''authorName'' fs' = None)
    \<and> (requests c' \<noteq> requests c \<longleftrightarrow>
          isbn (formValues fs) \<noteq> [] \<and> title (formValues fs) \<noteq> [] \<and> authorName (formValues fs) \<noteq> [])
    \<and> (requests c' \<noteq> requests c \<longrightarrow>
          requests c' = requests c @
            [createBook (isbn (formValues fs)) (title (formValues fs)) (authorName (formValues fs))]))"
proof (cases "bookSchema (formValues fs) = []")
  case True
  then show ?thesis
    using bookSchema_Nil [of "formValues fs"]
    by (simp add: handleSubmit_onSubmit FormMessage_def send_def)
next
  case False
  then show ?thesis
    using bookSchema_Nil [of "formValues fs"]
    by (auto simp: handleSubmit_onSubmit FormMessage_def map_of_bookSchema)
qed

theorem empty_field_blocks_submission_witness:
  "handleSubmit onSubmit
     (\<lparr>isPending = False, formValues = \<lparr>isbn = ''111'', title = [], authorName = ''Frank Herbert''\<rparr>,
       formErrors = []\<rparr>,
      \<lparr>requests = [], toasts = [], cache = [], location = ''/books/add''\<rparr>)
   = (\<lparr>isPending = False, formValues = \<lparr>isbn = ''111'', title = [], authorName = ''Frank Herbert''\<rparr>,
       formErrors = [(''title'', ''Title is required'')]\<rparr>,
      \<lparr>requests = [], toasts = [], cache = [], location = ''/books/add''\<rparr>)"
  using empty_field_blocks_submission
    [where fs = "\<lparr>isPending = False,
                   formValues = \<lparr>isbn = ''111'', title = [], authorName = ''Frank Herbert''\<rparr>,
                   formErrors = []\<rparr>"
       and c = "\<lparr>requests = [], toasts = [], cache = [], location = ''/books/add''\<rparr>"]
  by (simp add: handleSubmit_def bookSchema_def string_min_def)

section \<open>Properties of the Delete Book control\<close>

subsection \<open>One event\<close>

lemma dialog_content_DeleteBook:
  "dialog_content (DeleteBook u book ds) =
     (if truthy_flag (user_is_superuser u) \<and> open ds
      then [AlertDialogCancel ''Cancel'',
            AlertDialogAction (isPending ds) (if isPending ds then ''Deleting...'' else ''Delete'')]
      else [])"
  by (simp add: DeleteBook_def)

lemma step_Settled:
  "DeleteBook_step u book (Settled r) (ds, c) =
     (if isPending ds then DeleteBook_settle book r (ds, c) else (ds, c))"
  by (simp add: DeleteBook_step_def)

lemma step_close:
  "ev = CancelClick \<or> ev = Dismiss \<Longrightarrow>
   DeleteBook_step u book ev (ds, c) =
     (if truthy_flag (user_is_superuser u) \<and> open ds then (ds\<lparr>open := False\<rparr>, c) else (ds, c))"
  by (auto simp: DeleteBook_step_def dialog_content_DeleteBook)

lemma step_ActionClick:
  "DeleteBook_step u book ActionClick (ds, c) =
     (if truthy_flag (user_is_superuser u) \<and> open ds \<and> \<not> isPending ds
      then (ds\<lparr>isPending := True, open := False\<rparr>, send (deleteBook (isbn book)) c)
      else (ds, c))"
  by (simp add: DeleteBook_step_def dialog_content_DeleteBook DeleteBook_mutate_def)

lemma step_TrashClick:
  "DeleteBook_step u book TrashClick (ds, c) =
     (if truthy_flag (user_is_superuser u) then (ds\<lparr>open := True\<rparr>, c) else (ds, c))"
  by (simp add: DeleteBook_step_def DeleteBook_def)

lemma step_requests_other:
  "ev \<noteq> ActionClick \<Longrightarrow> requests (snd (DeleteBook_step u book ev s)) = requests (snd s)"
proof (cases s)
  case (Pair ds c)
  assume "ev \<noteq> ActionClick"
  then show ?thesis
    unfolding Pair
    by (cases ev)
       (auto simp: step_TrashClick step_close DeleteBook_step_def DeleteBook_settle_def
          DeleteBook_onSuccess_def DeleteBook_onError_def toast_def Let_def
          split: option.splits)
qed



subsection \<open>Sequences of events\<close>

lemma run_requests_without_action:
  "ActionClick \<notin> set evs \<Longrightarrow> requests (snd (DeleteBook_run u book evs s)) = requests (snd s)"
  by (induction evs arbitrary: s) (auto simp: step_requests_other)



subsection \<open>Outcomes, confirmation and the pending request\<close>

text \<open>
  C4: the claim is that a successful delete shows a notification naming the title,
  invalidates every cache entry whose key starts with \<open>books\<close> and closes the dialog, and
  that a failed delete shows the error message (or the generic text), leaves the cache
  alone and leaves the dialog open. The control does all of this but the last: the click
  on the action button that sends the request also closes the dialog, so a failed delete
  ends with the error notification over a closed dialog. Evaluated for a superuser who
  opens the dialog for the book \<open>978-0\<close> and confirms, with two cache entries present:
  after the click the request is pending and the dialog is already closed; when the
  request fails with \<open>Not found\<close> the dialog is still closed; when it succeeds the entry
  under \<open>books\<close> is invalidated and the other one is not.
\<close>

theorem failed_delete_ends_with_closed_dialog:
  "DeleteBook_run (Some \<lparr>email = ''a@b.c'', full_name = None, is_superuser = Some True\<rparr>)
     \<lparr>isbn = ''978-0'', title = ''Dune''\<rparr> [TrashClick]
     (DeleteBook_init,
      \<lparr>requests = [], toasts = [],
       cache = [([''books'', ''du''], \<lparr>rows = [], isInvalidated = False\<rparr>),
                ([''users''], \<lparr>rows = [], isInvalidated = False\<rparr>)],
       location = ''/books''\<rparr>)
   = (\<lparr>isPending = False, open = True\<rparr>,
      \<lparr>requests = [], toasts = [],
       cache = [([''books'', ''du''], \<lparr>rows = [], isInvalidated = False\<rparr>),
                ([''users''], \<lparr>rows = [], isInvalidated = False\<rparr>)],
       location = ''/books''\<rparr>)
   \<and> DeleteBook_run (Some \<lparr>email = ''a@b.c'', full_name = None, is_superuser = Some True\<rparr>)
     \<lparr>isbn = ''978-0'', title = ''Dune''\<rparr> [TrashClick, ActionClick]
     (DeleteBook_init,
      \<lparr>requests = [], toasts = [],
       cache = [([''books'', ''du''], \<lparr>rows = [], isInvalidated = False\<rparr>),
                ([''users''], \<lparr>rows = [], isInvalidated = False\<rparr>)],
       location = ''/books''\<rparr>)
   = (\<lparr>isPending = True, open = False\<rparr>,
      \<lparr>requests = [deleteBook ''978-0''], toasts = [],
       cache = [([''books'', ''du''], \<lparr>rows = [], isInvalidated = False\<rparr>),
                ([''users''], \<lparr>rows = [], isInvalidated = False\<rparr>)],
       location = ''/books''\<rparr>)
   \<and> DeleteBook_run (Some \<lparr>email = ''a@b.c'', full_name = None, is_superuser = Some True\<rparr>)
     \<lparr>isbn = ''978-0'', title = ''Dune''\<rparr>
     [TrashClick, ActionClick, Settled (Some \<lparr>message = Some ''Not found''\<rparr>)]
     (DeleteBook_init,
      \<lparr>requests = [], toasts = [],
       cache = [([''books'', ''du''], \<lparr>rows = [], isInvalidated = False\<rparr>),
                ([''users''], \<lparr>rows = [], isInvalidated = False\<rparr>)],
       location = ''/books''\<rparr>)
   = (\<lparr>isPending = False, open = False\<rparr>,
      \<lparr>requests = [deleteBook ''978-0''],
       toasts = [\<lparr>toast_title = ''Error deleting book'', description = ''Not found'',
                  toast_variant = Some destructive\<rparr>],
       cache = [([''books'', ''du''], \<lparr>rows = [], isInvalidated = False\<rparr>),
                ([''users''], \<lparr>rows = [], isInvalidated = False\<rparr>)],
       location = ''/books''\<rparr>)
   \<and> DeleteBook_run (Some \<lparr>email = ''a@b.c'', full_name = None, is_superuser = Some True\<rparr>)
     \<lparr>isbn = ''978-0'', title = ''Dune''\<rparr> [TrashClick, ActionClick, Settled None]
     (DeleteBook_init,
      \<lparr>requests = [], toasts = [],
       cache = [([''books'', ''du''], \<lparr>rows = [], isInvalidated = False\<rparr>),
                ([''users''], \<lparr>rows = [], isInvalidated = False\<rparr>)],
       location = ''/books''\<rparr>)
   = (\<lparr>isPending = False, open = False\<rparr>,
      \<lparr>requests = [deleteBook ''978-0''],
       toasts = [\<lparr>toast_title = ''Book deleted'',
                  description = CHR 0x22 # ''Dune'' @ CHR 0x22 # '' has been deleted successfully.'',
                  toast_variant = None\<rparr>],
       cache = [([''books'', ''du''], \<lparr>rows = [], isInvalidated = True\<rparr>),
                ([''users''], \<lparr>rows = [], isInvalidated = False\<rparr>)],
       location = ''/books''\<rparr>)"
  by (simp add: DeleteBook_init_def step_TrashClick step_ActionClick step_Settled
      DeleteBook_settle_def DeleteBook_onSuccess_def DeleteBook_onError_def toast_def send_def
      invalidateQueries_def deleted_description_def or_else_def truthy_string_def
      truthy_flag_def user_is_superuser_def Let_def)

text \<open>
  C5: cancelling or dismissing the dialog changes nothing but the open flag of the dialog
  and sends no request; no sequence of events without a click on the action button sends
  a request; and an event that sends a request is a click on the action button of the
  open dialog, sending \<open>deleteBook\<close> with the isbn of the row.
\<close>

theorem delete_request_needs_confirmation:
  "(ev = CancelClick \<or> ev = Dismiss \<longrightarrow>
      (case DeleteBook_step u book ev (ds, c) of (ds', c') \<Rightarrow>
         c' = c \<and> ds' = ds\<lparr>open := open ds'\<rparr>
         \<and> (truthy_flag (user_is_superuser u) \<longrightarrow> \<not> open ds')))
   \<and> (ActionClick \<notin> set evs \<longrightarrow>
        requests (snd (DeleteBook_run u book evs (ds, c))) = requests c)
   \<and> (requests (snd (DeleteBook_step u book ev' (ds, c))) \<noteq> requests c \<longrightarrow>
        ev' = ActionClick \<and> open ds
        \<and> requests (snd (DeleteBook_step u book ev' (ds, c)))
            = requests c @ [deleteBook (isbn book)])"
proof (intro conjI impI)
  assume "ev = CancelClick \<or> ev = Dismiss"
  then show "case DeleteBook_step u book ev (ds, c) of (ds', c') \<Rightarrow>
         c' = c \<and> ds' = ds\<lparr>open := open ds'\<rparr>
         \<and> (truthy_flag (user_is_superuser u) \<longrightarrow> \<not> open ds')"
    by (simp add: step_close)
next
  assume "ActionClick \<notin> set evs"
  then show "requests (snd (DeleteBook_run u book evs (ds, c))) = requests c"
    using run_requests_without_action [of evs u book "(ds, c)"] by simp
next
  assume ch: "requests (snd (DeleteBook_step u book ev' (ds, c))) \<noteq> requests c"
  then show a: "ev' = ActionClick"
    using step_requests_other [of ev' u book "(ds, c)"] by auto
  with ch show "open ds"
    by (auto simp: step_ActionClick split: if_splits)
  from ch a
  show "requests (snd (DeleteBook_step u book ev' (ds, c))) = requests c @ [deleteBook (isbn book)]"
    by (auto simp: step_ActionClick send_def split: if_splits)
qed

theorem delete_request_needs_confirmation_witness:
  "DeleteBook_step (Some \<lparr>email = ''a@b.c'', full_name = None, is_superuser = Some True\<rparr>)
       \<lparr>isbn = ''978-0'', title = ''Dune''\<rparr> Dismiss
       (\<lparr>isPending = False, open = True\<rparr>,
        \<lparr>requests = [], toasts = [], cache = [], location = ''/books''\<rparr>)
     = (\<lparr>isPending = False, open = False\<rparr>,
        \<lparr>requests = [], toasts = [], cache = [], location = ''/books''\<rparr>)
   \<and> requests (snd (DeleteBook_run
        (Some \<lparr>email = ''a@b.c'', full_name = None, is_superuser = Some True\<rparr>)
        \<lparr>isbn = ''978-0'', title = ''Dune''\<rparr>
        [CancelClick, TrashClick, Dismiss, TrashClick]
        (\<lparr>isPending = False, open = True\<rparr>,
         \<lparr>requests = [], toasts = [], cache = [], location = ''/books''\<rparr>))) = []
   \<and> requests (snd (DeleteBook_step
        (Some \<lparr>email = ''a@b.c'', full_name = None, is_superuser = Some True\<rparr>)
        \<lparr>isbn = ''978-0'', title = ''Dune''\<rparr> ActionClick
        (\<lparr>isPending = False, open = True\<rparr>,
         \<lparr>requests = [], toasts = [], cache = [], location = ''/books''\<rparr>)))
       = [deleteBook ''978-0'']"
  using delete_request_needs_confirmation
    [where ev = Dismiss and ev' = ActionClick
       and u = "Some \<lparr>email = ''a@b.c'', full_name = None, is_superuser = Some True\<rparr>"
       and book = "\<lparr>isbn = ''978-0'', title = ''Dune''\<rparr>"
       and ds = "\<lparr>isPending = False, open = True\<rparr>"
       and c = "\<lparr>requests = [], toasts = [], cache = [], location = ''/books''\<rparr>"
       and evs = "[CancelClick, TrashClick, Dismiss, TrashClick]"]
  by (simp add: DeleteBook_step_def DeleteBook_def truthy_flag_def user_is_superuser_def
      DeleteBook_mutate_def send_def)



end
